theory Spec2Isabelle
  imports Complex_Main
begin

section \<open>The NEB-to-dimer script \<open>neb2dimer_dpa2.py\<close>\<close>

text \<open>
  A shallow embedding of the script's own logic: argument parsing, the search for the
  transition-state image, the derivation of the displacement vector, the three mask
  builders and the runner of class \<open>DPDimer\<close>, and the main-mode selector \<open>main4dis\<close>.
  The optimisers, the NEB solver, the dimer translator and the potential are library
  calls; they appear as events of a trace, and the potential energy of an image is a
  field of the image.

  Numbers: \<open>numpy\<close>'s \<open>float64\<close> is idealised as \<^typ>\<open>real\<close> (exact arithmetic, no
  rounding, no overflow). The one place where the script's arithmetic leaves the finite
  numbers, a division of zero by zero that yields NaN, is written out as a case of its
  own.
\<close>

subsection \<open>Python values\<close>

text \<open>The exceptions the script's own code can raise; \<open>ValueError\<close> carries its message.\<close>

datatype py_error = IndexError | ValueError string

text \<open>Indexing a sequence of length \<open>n\<close>: a negative index counts from the end.\<close>

definition py_index :: "nat \<Rightarrow> int \<Rightarrow> py_error + nat" where
  "py_index n i =
     (if 0 \<le> i \<and> i < int n then Inr (nat i)
      else if - int n \<le> i \<and> i < 0 then Inr (nat (int n + i))
      else Inl IndexError)"

definition py_getitem :: "'a list \<Rightarrow> int \<Rightarrow> py_error + 'a" where
  "py_getitem xs i = (case py_index (length xs) i of Inl e \<Rightarrow> Inl e | Inr k \<Rightarrow> Inr (xs ! k))"

definition py_setitem :: "'a list \<Rightarrow> int \<Rightarrow> 'a \<Rightarrow> py_error + 'a list" where
  "py_setitem xs i v =
     (case py_index (length xs) i of Inl e \<Rightarrow> Inl e | Inr k \<Rightarrow> Inr (xs[k := v]))"

text \<open>\<open>max\<close> of a list raises \<open>ValueError\<close> on the empty list.\<close>

fun py_max :: "real list \<Rightarrow> py_error + real" where
  "py_max [] = Inl (ValueError ''max() arg is an empty sequence'')"
| "py_max (x # xs) = Inr (fold max xs x)"

text \<open>
  The loop \<^verbatim>\<open>for ind in inds: d_mask[ind] = v\<close>; an index out of range raises at the
  first such index.
\<close>

fun set_items :: "'a list \<Rightarrow> int list \<Rightarrow> 'a \<Rightarrow> py_error + 'a list" where
  "set_items d_mask [] v = Inr d_mask"
| "set_items d_mask (ind # inds) v =
     (case py_setitem d_mask ind v of Inl e \<Rightarrow> Inl e | Inr m \<Rightarrow> set_items m inds v)"

text \<open>\<open>str\<close> of an integer and of a list of integers, as an f-string prints them.\<close>

fun py_str_nat :: "nat \<Rightarrow> string" where
  "py_str_nat n =
     (if n < 10 then [''0123456789'' ! n]
      else py_str_nat (n div 10) @ [''0123456789'' ! (n mod 10)])"

declare py_str_nat.simps [simp del]

definition py_str_int :: "int \<Rightarrow> string" where
  "py_str_int i = (if i < 0 then ''-'' @ py_str_nat (nat (- i)) else py_str_nat (nat i))"

fun join_comma :: "string list \<Rightarrow> string" where
  "join_comma [] = []"
| "join_comma [s] = s"
| "join_comma (s # t # ss) = s @ '', '' @ join_comma (t # ss)"

definition py_str_int_list :: "int list \<Rightarrow> string" where
  "py_str_int_list inds = ''['' @ join_comma (map py_str_int inds) @ '']''"

subsection \<open>Structures\<close>

type_synonym vec3 = "real \<times> real \<times> real"

text \<open>
  An \<open>Atoms\<close> object, as far as the script reads it: the \<open>N \<times> 3\<close> array of positions,
  the list of constraints (each given by what its \<open>get_indices()\<close> returns) and the
  potential energy its calculator reports.
\<close>

record atoms =
  positions :: "vec3 list"
  constraints :: "int list list"
  potential_energy :: real

subsection \<open>Locating the transition state\<close>

text \<open>
  \<^verbatim>\<open>neb_raw_barrier = max([image.get_potential_energy() for image in images])\<close>
  \<^verbatim>\<open>TS_info = [(ind, image) for ind, image in enumerate(images)
             if image.get_potential_energy() == neb_raw_barrier][0]\<close>
\<close>

definition neb_raw_barrier :: "atoms list \<Rightarrow> py_error + real" where
  "neb_raw_barrier images = py_max (map potential_energy images)"

definition TS_info :: "atoms list \<Rightarrow> py_error + (nat \<times> atoms)" where
  "TS_info images =
     (case neb_raw_barrier images of
        Inl e \<Rightarrow> Inl e
      | Inr barrier \<Rightarrow>
          (case filter (\<lambda>(ind, image). potential_energy image = barrier) (enumerate 0 images) of
             [] \<Rightarrow> Inl IndexError
           | p # _ \<Rightarrow> Inr p))"

subsection \<open>Arrays\<close>

text \<open>
  An \<open>N \<times> 3\<close> array of finite numbers, or the \<open>N \<times> 3\<close> array whose entries are all NaN
  (what dividing the zero array by zero gives); likewise for a vector of length \<open>N\<close>.
\<close>

datatype ndarray = Array "vec3 list" | Nan_array nat


text \<open>The sum of the squares of a row.\<close>

fun sq3 :: "vec3 \<Rightarrow> real" where
  "sq3 (x, y, z) = x\<^sup>2 + y\<^sup>2 + z\<^sup>2"

text \<open>\<^verbatim>\<open>np.linalg.norm(a)\<close> of a two-dimensional array: the Frobenius norm.\<close>

definition norm_fro :: "vec3 list \<Rightarrow> real" where
  "norm_fro a = sqrt (sum_list (map sq3 a))"


text \<open>An array divided by a non-zero scalar.\<close>

definition np_div :: "vec3 list \<Rightarrow> real \<Rightarrow> vec3 list" where
  "np_div a c = map (\<lambda>(x, y, z). (x / c, y / c, z / c)) a"

definition sub3 :: "vec3 \<Rightarrow> vec3 \<Rightarrow> vec3" where
  "sub3 u v = (case u of (x, y, z) \<Rightarrow> (case v of (x', y', z') \<Rightarrow> (x - x', y - y', z - z')))"

text \<open>
  The difference of an \<open>N \<times> 3\<close> and an \<open>M \<times> 3\<close> array: row by row when \<open>N = M\<close>, a
  single row broadcast against the other array, an error otherwise.
\<close>

definition np_sub :: "vec3 list \<Rightarrow> vec3 list \<Rightarrow> py_error + vec3 list" where
  "np_sub a b =
     (if length a = length b then Inr (map2 sub3 a b)
      else if length a = 1 then Inr (map (sub3 (hd a)) b)
      else if length b = 1 then Inr (map (\<lambda>u. sub3 u (hd b)) a)
      else Inl (ValueError ''operands could not be broadcast together''))"

subsection \<open>Effects\<close>

text \<open>
  What a piece of the script does besides returning: printing, assigning to
  \<open>os.environ\<close>, and the library calls of the dimer runner, in the order they happen.
\<close>

datatype event =
    Print string
  | Setenv string string
  | New_calculator string
  | Open_trajectory string "string list"
  | Dimer_control string "string option" "bool list"
  | Displace "ndarray option"
  | Min_mode_translate real

type_synonym environ = "string \<rightharpoonup> string"

fun apply_event :: "event \<Rightarrow> environ \<Rightarrow> environ" where
  "apply_event (Setenv k v) env = env(k \<mapsto> v)"
| "apply_event _ env = env"

definition environ_after :: "event list \<Rightarrow> environ \<Rightarrow> environ" where
  "environ_after evs env = fold apply_event evs env"

text \<open>What a trace shows of a dimer run: the masks handed to \<open>DimerControl\<close>, the seed
  vectors handed to \<open>displace\<close>, and the convergence thresholds of the dimer
  translations that were started.\<close>

fun dimer_masks :: "event list \<Rightarrow> bool list list" where
  "dimer_masks [] = []"
| "dimer_masks (Dimer_control _ _ m # evs) = m # dimer_masks evs"
| "dimer_masks (_ # evs) = dimer_masks evs"

fun seed_vectors :: "event list \<Rightarrow> ndarray option list" where
  "seed_vectors [] = []"
| "seed_vectors (Displace dv # evs) = dv # seed_vectors evs"
| "seed_vectors (_ # evs) = seed_vectors evs"

fun dimer_iterations :: "event list \<Rightarrow> real list" where
  "dimer_iterations [] = []"
| "dimer_iterations (Min_mode_translate fmax # evs) = fmax # dimer_iterations evs"
| "dimer_iterations (_ # evs) = dimer_iterations evs"

subsection \<open>Parameter setting\<close>

definition model_param :: string where "model_param = ''FeCHO-dpa2-full.pt''"
definition dimer_fmax_param :: real where "dimer_fmax_param = 5 / 100"
definition omp_param :: int where "omp_param = 16"
definition dimer_traj_param :: string where "dimer_traj_param = ''dimer_dpa2.traj''"
definition step_before_TS_param :: int where "step_before_TS_param = 1"
definition step_after_TS_param :: int where "step_after_TS_param = 1"
definition norm_vector_param :: real where "norm_vector_param = 1 / 100"

subsection \<open>Reading part\<close>

definition msg :: string where
  "msg = ''\<newline>Usage: \<newline>- For using IS and FS: \<newline>    python neb2dimer_dpa2.py [init_stru] [final_stru] ([format])\<newline>- For using existing NEB: \<newline>    python neb2dimer_dpa2.py [neb_latest.traj]\<newline>''"

text \<open>
  What the branch on \<open>len(sys.argv)\<close> decides: the process exits with a code, or the
  script goes on to read one trajectory, or two structures with an optional format.
\<close>

datatype reading = Exit int | Read_trajectory string | Read_structures string string "string option"

definition reading_part :: "string list \<Rightarrow> event list \<times> reading" where
  "reading_part argv =
     (if length argv < 2 then ([Print msg], Exit 1)
      else if length argv = 2 then
        (if argv ! 1 = ''-h'' \<or> argv ! 1 = ''--help'' then ([Print msg], Exit 0)
         else ([], Read_trajectory (argv ! 1)))
      else ([], Read_structures (argv ! 1) (argv ! 2)
                  (if length argv = 4 then Some (argv ! 3) else None)))"

subsection \<open>Class \<open>DPDimer\<close>\<close>

record dpdimer =
  init_Atoms :: atoms
  model :: string
  omp :: int
  directory :: string
  traj_file :: string
  init_eigenmode_method :: string
  displacement_vector :: "ndarray option"

definition set_calculator :: "dpdimer \<Rightarrow> event list" where
  "set_calculator self =
     [Setenv ''OMP_NUM_THREADS'' (py_str_int (omp self)), New_calculator (model self)]"

text \<open>
  \<^verbatim>\<open>d_mask = self.displacement_vector != np.zeros(3)\<close> compares entry by entry and gives
  an \<open>N \<times> 3\<close> array of truth values; \<^verbatim>\<open>d_mask[:,0].tolist()\<close> is its first column. NaN
  differs from zero. With no displacement vector (\<open>None\<close>) the comparison gives a
  one-dimensional array, and taking a column of it raises \<open>IndexError\<close>.
\<close>

definition set_d_mask_by_displacement :: "dpdimer \<Rightarrow> event list \<times> (py_error + bool list)" where
  "set_d_mask_by_displacement self =
     ([Print ''=== Set mask by displacement vector where displacement is [0,0,0] ===''],
      (case displacement_vector self of
         None \<Rightarrow> Inl IndexError
       | Some (Array a) \<Rightarrow>
           (let d_mask = map (\<lambda>(x, y, z). (x \<noteq> 0, y \<noteq> 0, z \<noteq> 0)) a
            in Inr (map fst d_mask))
       | Some (Nan_array n) \<Rightarrow> Inr (replicate n True)))"

definition set_d_mask_by_constraint :: "dpdimer \<Rightarrow> event list \<times> (py_error + bool list)" where
  "set_d_mask_by_constraint self =
     (let dimer_init = init_Atoms self;
          d_mask = replicate (length (positions dimer_init)) True;
          const = constraints dimer_init
      in case const of
           const_object # _ \<Rightarrow>
             ([Print ''=== Set mask by constraint read from init Atoms ===''],
              set_items d_mask const_object False)
         | [] \<Rightarrow>
             ([Print ''=== Set mask by constraint read from init Atoms ==='',
               Print ''--- Notice: No constraint found in init Atoms, there will be no mask in dimer calculation ---''],
              Inr d_mask))"

definition set_d_mask_by_specified ::
  "dpdimer \<Rightarrow> int list \<Rightarrow> event list \<times> (py_error + bool list)" where
  "set_d_mask_by_specified self moving_atoms_ind =
     (let dimer_init = init_Atoms self;
          d_mask = replicate (length (positions dimer_init)) False
      in ([Print (''=== Set mask by specifing moving atoms '' @ py_str_int_list moving_atoms_ind
                  @ '' ==='')],
          set_items d_mask moving_atoms_ind True))"

text \<open>
  \<open>DPDimer.run\<close>. The test \<^verbatim>\<open>if moving_atoms_ind:\<close> is false for \<open>None\<close> and for the empty
  list. The trace ends at the point where an exception leaves the method.
\<close>

definition run ::
  "dpdimer \<Rightarrow> real \<Rightarrow> string list \<Rightarrow> int list option \<Rightarrow> event list \<times> (py_error + unit)" where
  "run self fmax properties moving_atoms_ind =
     (let evs = set_calculator self @ [Open_trajectory (traj_file self) properties]
      in if init_eigenmode_method self = ''displacement'' then
           (case (case moving_atoms_ind of
                    None \<Rightarrow> set_d_mask_by_displacement self
                  | Some [] \<Rightarrow> set_d_mask_by_displacement self
                  | Some (ind # inds) \<Rightarrow> set_d_mask_by_specified self (ind # inds)) of
              (evs', Inl e) \<Rightarrow> (evs @ evs', Inl e)
            | (evs', Inr d_mask) \<Rightarrow>
                (evs @ evs' @
                 [Dimer_control ''displacement'' (Some ''vector'') d_mask,
                  Displace (displacement_vector self),
                  Min_mode_translate fmax], Inr ()))
         else if init_eigenmode_method self = ''gauss'' then
           (case set_d_mask_by_constraint self of
              (evs', Inl e) \<Rightarrow> (evs @ evs', Inl e)
            | (evs', Inr d_mask) \<Rightarrow>
                (evs @ evs' @
                 [Dimer_control ''gauss'' None d_mask,
                  Min_mode_translate fmax], Inr ()))
         else (evs, Inl (ValueError ''init_eigenmode_method must be displacement or gauss'')))"

subsection \<open>Main parts of a displacement vector\<close>


subsection \<open>From the NEB chain to the displacement vector\<close>

text \<open>
  \<^verbatim>\<open>modulo_norm = np.linalg.norm(image_vector) / norm_vector\<close>
  \<^verbatim>\<open>displacement_vector = image_vector / modulo_norm\<close>
\<close>

definition displacement_vector_of :: "vec3 list \<Rightarrow> ndarray" where
  "displacement_vector_of image_vector =
     (let modulo_norm = norm_fro image_vector / norm_vector_param
      in if modulo_norm = 0 then Nan_array (length image_vector)
         else Array (np_div image_vector modulo_norm))"

text \<open>
  Lines 244 to 250, for a transition-state index \<open>ts\<close> (\<open>TS_info[0]\<close>) and the two steps:
  the result is the pair of \<open>image_vector\<close> and \<open>displacement_vector\<close>.
\<close>

definition neb2dimer :: "atoms list \<Rightarrow> nat \<Rightarrow> int \<Rightarrow> int \<Rightarrow> py_error + (vec3 list \<times> ndarray)" where
  "neb2dimer images ts step_before_TS step_after_TS =
     (let ind_before_TS = int ts - step_before_TS;
          ind_after_TS = int ts + step_after_TS
      in case py_getitem images ind_before_TS of
           Inl e \<Rightarrow> Inl e
         | Inr img_before \<Rightarrow>
             (case py_getitem images ind_after_TS of
                Inl e \<Rightarrow> Inl e
              | Inr img_after \<Rightarrow>
                  (case np_sub (positions img_before) (positions img_after) of
                     Inl e \<Rightarrow> Inl e
                   | Inr image_vector \<Rightarrow>
                       Inr (image_vector, displacement_vector_of image_vector))))"

subsection \<open>The environment of the stages\<close>

text \<open>
  The script as a sequence of parts, in the order of the file. Two statements assign to
  \<open>os.environ\<close>: line 33 in the parameter setting, and \<open>set_calculator\<close>, which only
  \<open>DPDimer.run\<close> calls, in the dimer part. The dimer object is the one built at lines
  258 to 262.
\<close>

datatype stage =
    Parameter_setting | Reading_part | Endpoint_relaxation | Run_neb
  | Neb_to_dimer | Dimer_part | Structure_export | Vibration_analysis

definition script :: "stage list" where
  "script = [Parameter_setting, Reading_part, Endpoint_relaxation, Run_neb,
             Neb_to_dimer, Dimer_part, Structure_export, Vibration_analysis]"

definition script_dimer :: "atoms \<Rightarrow> ndarray \<Rightarrow> dpdimer" where
  "script_dimer dimer_init dv =
     \<lparr>init_Atoms = dimer_init, model = model_param, omp = omp_param,
      directory = ''DIMER'', traj_file = dimer_traj_param,
      init_eigenmode_method = ''displacement'', displacement_vector = Some dv\<rparr>"

fun stage_environ :: "atoms \<Rightarrow> ndarray \<Rightarrow> stage \<Rightarrow> environ \<Rightarrow> environ" where
  "stage_environ dimer_init dv Parameter_setting env = env(''OMP_NUM_THREADS'' \<mapsto> ''omp'')"
| "stage_environ dimer_init dv Dimer_part env =
     environ_after
       (fst (run (script_dimer dimer_init dv) dimer_fmax_param
               [''energy'', ''forces'', ''stress''] None)) env"
| "stage_environ dimer_init dv _ env = env"

text \<open>
  The value of \<open>OMP_NUM_THREADS\<close> that the library calls of each part find, the part's
  own assignment done.
\<close>

fun omp_num_threads ::
  "atoms \<Rightarrow> ndarray \<Rightarrow> stage list \<Rightarrow> environ \<Rightarrow> (stage \<times> string option) list" where
  "omp_num_threads dimer_init dv [] env = []"
| "omp_num_threads dimer_init dv (s # ss) env =
     (let env' = stage_environ dimer_init dv s env
      in (s, env' ''OMP_NUM_THREADS'') # omp_num_threads dimer_init dv ss env')"

section \<open>Properties\<close>

subsection \<open>The transition-state index\<close>

lemma fold_max_Max: "fold max xs (x::real) = Max (set (x # xs))"
  by (rule Max.set_eq_fold [symmetric])

lemma filter_enumerate_first:
  assumes "filter P (enumerate n xs) = p # ps"
  shows "n \<le> fst p \<and> fst p < n + length xs \<and> snd p = xs ! (fst p - n) \<and> P p
         \<and> (\<forall>j. n \<le> j \<and> j < fst p \<longrightarrow> \<not> P (j, xs ! (j - n)))"
  using assms
proof (induction xs arbitrary: n)
  case Nil
  then show ?case by simp
next
  case (Cons x xs)
  show ?case
  proof (cases "P (n, x)")
    case True
    with Cons.prems have "p = (n, x)" by simp
    with True show ?thesis by auto
  next
    case False
    with Cons.prems have "filter P (enumerate (Suc n) xs) = p # ps" by simp
    from Cons.IH [OF this]
    have ih: "Suc n \<le> fst p" "fst p < Suc n + length xs" "snd p = xs ! (fst p - Suc n)" "P p"
      "\<forall>j. Suc n \<le> j \<and> j < fst p \<longrightarrow> \<not> P (j, xs ! (j - Suc n))"
      by simp_all
    have "\<not> P (j, (x # xs) ! (j - n))" if "n \<le> j" "j < fst p" for j
    proof (cases "j = n")
      case True
      with False show ?thesis by simp
    next
      case False
      with that have "Suc n \<le> j" by simp
      with ih(5) that have "\<not> P (j, xs ! (j - Suc n))" by simp
      moreover from \<open>Suc n \<le> j\<close> have "(x # xs) ! (j - n) = xs ! (j - Suc n)"
        by (simp add: Suc_diff_le)
      ultimately show ?thesis by simp
    qed
    moreover from ih(1) have "(x # xs) ! (fst p - n) = xs ! (fst p - Suc n)"
      by (simp add: Suc_diff_le)
    ultimately show ?thesis using ih by simp
  qed
qed

text \<open>
  C7. On a chain with at least one image the search returns an index \<open>i\<close> of the chain
  together with the image at \<open>i\<close>; the energy of that image is the maximum of the
  energies of all images, and every image before \<open>i\<close> has a strictly smaller energy, so
  that among images that tie for the maximum the first one is returned.
\<close>

theorem TS_info_first_maximum:
  assumes "images \<noteq> []"
  shows "\<exists>i. TS_info images = Inr (i, images ! i) \<and> i < length images
           \<and> potential_energy (images ! i) = Max (potential_energy ` set images)
           \<and> (\<forall>j<i. potential_energy (images ! j) < potential_energy (images ! i))"
proof -
  let ?E = "potential_energy ` set images"
  let ?P = "\<lambda>(ind, image). potential_energy image = Max ?E"
  from assms obtain x xs where im: "images = x # xs" by (cases images) auto
  have barrier: "neb_raw_barrier images = Inr (Max ?E)"
    by (simp add: neb_raw_barrier_def im fold_max_Max)
  have fin: "finite ?E" and ne: "?E \<noteq> {}" using assms by simp_all
  from Max_in [OF fin ne] obtain k where k: "k < length images"
    "potential_energy (images ! k) = Max ?E"
    by (auto simp: in_set_conv_nth)
  have "(k, images ! k) \<in> set (enumerate 0 images)"
    using k(1) by (simp add: in_set_enumerate_eq)
  with k(2) have "(k, images ! k) \<in> set (filter ?P (enumerate 0 images))" by simp
  then obtain p ps where f: "filter ?P (enumerate 0 images) = p # ps"
    by (cases "filter ?P (enumerate 0 images)") auto
  from filter_enumerate_first [OF f]
  have p: "fst p < length images" "snd p = images ! fst p" "?P p"
    "\<forall>j. j < fst p \<longrightarrow> \<not> ?P (j, images ! j)"
    by simp_all
  have ts: "TS_info images = Inr (fst p, images ! fst p)"
    using p(2) by (simp add: TS_info_def barrier f prod_eq_iff)
  from p(2,3) have mx: "potential_energy (images ! fst p) = Max ?E"
    by (simp add: case_prod_beta)
  have "potential_energy (images ! j) < potential_energy (images ! fst p)" if "j < fst p" for j
  proof -
    from that p(1) have "potential_energy (images ! j) \<in> ?E" by simp
    then have "potential_energy (images ! j) \<le> Max ?E" using fin by simp
    moreover from p(4) that have "potential_energy (images ! j) \<noteq> Max ?E" by simp
    ultimately show ?thesis using mx by simp
  qed
  with ts p(1) mx show ?thesis by blast
qed

theorem TS_info_first_maximum_witness:
  "[\<lparr>positions = [], constraints = [], potential_energy = 1\<rparr>,
    \<lparr>positions = [], constraints = [], potential_energy = 3\<rparr>,
    \<lparr>positions = [(1, 0, 0)], constraints = [], potential_energy = 3\<rparr>,
    \<lparr>positions = [], constraints = [], potential_energy = 2\<rparr>] \<noteq> []
   \<and> TS_info
      [\<lparr>positions = [], constraints = [], potential_energy = 1\<rparr>,
       \<lparr>positions = [], constraints = [], potential_energy = 3\<rparr>,
       \<lparr>positions = [(1, 0, 0)], constraints = [], potential_energy = 3\<rparr>,
       \<lparr>positions = [], constraints = [], potential_energy = 2\<rparr>]
     = Inr (1, \<lparr>positions = [], constraints = [], potential_energy = 3\<rparr>)"
proof -
  let ?chain = "[\<lparr>positions = [], constraints = [], potential_energy = 1\<rparr>,
    \<lparr>positions = [], constraints = [], potential_energy = 3\<rparr>,
    \<lparr>positions = [(1, 0, 0)], constraints = [], potential_energy = 3\<rparr>,
    \<lparr>positions = [], constraints = [], potential_energy = 2\<rparr>]"
  have ne: "?chain \<noteq> []" by simp
  from TS_info_first_maximum [OF ne] obtain i where i:
    "TS_info ?chain = Inr (i, ?chain ! i)" "i < length ?chain"
    "potential_energy (?chain ! i) = Max (potential_energy ` set ?chain)"
    "\<forall>j<i. potential_energy (?chain ! j) < potential_energy (?chain ! i)"
    by blast
  from i(2) consider "i = 0" | "i = 1" | "i = 2" | "i = 3" by force
  then have "i = 1"
  proof cases
    case 1 with i(3) show ?thesis by simp
  next
    case 2 then show ?thesis .
  next
    case 3
    from i(4) have "(1::nat) < i \<longrightarrow> potential_energy (?chain ! 1) < potential_energy (?chain ! i)"
      by (rule spec)
    with 3 show ?thesis by simp
  next
    case 4 with i(3) show ?thesis by simp
  qed
  with i(1) ne show ?thesis by simp
qed

subsection \<open>The mask builders\<close>

lemma set_d_mask_by_displacement_Array:
  "displacement_vector self = Some (Array a) \<Longrightarrow>
   snd (set_d_mask_by_displacement self) = Inr (map (\<lambda>(x, y, z). x \<noteq> 0) a)"
  by (simp add: set_d_mask_by_displacement_def case_prod_beta)

text \<open>
  C1. The by-displacement policy reads only the first column of the comparison with the
  zero vector: for the one-atom displacement vector \<open>[[0, 1, 0]]\<close>, whose entry is not
  the zero vector, the mask is \<open>[False]\<close>, the atom is not marked moving. In general
  (\<open>set_d_mask_by_displacement_Array\<close>) an atom is marked moving if and only if the
  first component of its entry is non-zero.
\<close>

theorem set_d_mask_by_displacement_first_column:
  "snd (set_d_mask_by_displacement (self\<lparr>displacement_vector := Some (Array [(0, 1, 0)])\<rparr>))
   = Inr [False]"
  by (simp add: set_d_mask_by_displacement_def)

text \<open>
  C4. The by-constraint policy reads only the first constraint of the structure: with
  three atoms and the two constraints \<open>FixAtoms([0])\<close> and \<open>FixAtoms([1])\<close>, atom 1 is
  covered by a constraint and is marked moving all the same. With the single constraint
  fixing atom 2 of 5 the mask is as the scenario says, and with no constraint every atom
  is moving and the notice is printed.
\<close>

theorem set_d_mask_by_constraint_first_only:
  "snd (set_d_mask_by_constraint
      (self\<lparr>init_Atoms := \<lparr>positions = [(0, 0, 0), (1, 0, 0), (2, 0, 0)],
                             constraints = [[0], [1]], potential_energy = e\<rparr>\<rparr>))
   = Inr [False, True, True]"
  by (simp add: set_d_mask_by_constraint_def py_setitem_def py_index_def)

lemma set_d_mask_by_constraint_scenario:
  "snd (set_d_mask_by_constraint
      (self\<lparr>init_Atoms := \<lparr>positions = [(0, 0, 0), (1, 0, 0), (2, 0, 0), (3, 0, 0), (4, 0, 0)],
                             constraints = [[2]], potential_energy = e\<rparr>\<rparr>))
   = Inr [True, True, False, True, True]"
  by (simp add: set_d_mask_by_constraint_def py_setitem_def py_index_def)

lemma set_d_mask_by_constraint_none:
  "constraints (init_Atoms self) = [] \<Longrightarrow>
   set_d_mask_by_constraint self =
     ([Print ''=== Set mask by constraint read from init Atoms ==='',
       Print ''--- Notice: No constraint found in init Atoms, there will be no mask in dimer calculation ---''],
      Inr (replicate (length (positions (init_Atoms self))) True))"
  by (simp add: set_d_mask_by_constraint_def)

subsection \<open>Index errors of the displacement-vector derivation\<close>

lemma py_getitem_IndexError:
  "py_getitem xs i = Inl e \<longleftrightarrow> e = IndexError \<and> (i < - int (length xs) \<or> int (length xs) \<le> i)"
  by (auto simp: py_getitem_def py_index_def)


lemma py_getitem_neg:
  "- int (length xs) \<le> i \<Longrightarrow> i < 0 \<Longrightarrow> py_getitem xs i = Inr (xs ! nat (int (length xs) + i))"
  by (simp add: py_getitem_def py_index_def)

lemma np_sub_not_IndexError: "np_sub a b \<noteq> Inl IndexError"
  by (simp add: np_sub_def)

lemma neb2dimer_IndexError_iff:
  "neb2dimer images ts b a = Inl IndexError \<longleftrightarrow>
     int ts - b < - int (length images) \<or> int (length images) \<le> int ts - b
     \<or> int ts + a < - int (length images) \<or> int (length images) \<le> int ts + a"
proof (cases "py_getitem images (int ts - b)")
  case (Inl e)
  then have "neb2dimer images ts b a = Inl e" by (simp add: neb2dimer_def)
  moreover from Inl have "e = IndexError"
    "int ts - b < - int (length images) \<or> int (length images) \<le> int ts - b"
    by (simp_all add: py_getitem_IndexError)
  ultimately show ?thesis by blast
next
  case before: (Inr img_before)
  have inb: "\<not> (int ts - b < - int (length images) \<or> int (length images) \<le> int ts - b)"
    using before py_getitem_IndexError [of images "int ts - b" IndexError] by auto
  show ?thesis
  proof (cases "py_getitem images (int ts + a)")
    case (Inl e)
    with before have "neb2dimer images ts b a = Inl e" by (simp add: neb2dimer_def)
    moreover from Inl have "e = IndexError"
      "int ts + a < - int (length images) \<or> int (length images) \<le> int ts + a"
      by (simp_all add: py_getitem_IndexError)
    ultimately show ?thesis by blast
  next
    case after: (Inr img_after)
    have ina: "\<not> (int ts + a < - int (length images) \<or> int (length images) \<le> int ts + a)"
      using after py_getitem_IndexError [of images "int ts + a" IndexError] by auto
    have "neb2dimer images ts b a \<noteq> Inl IndexError"
      using before after np_sub_not_IndexError [of "positions img_before" "positions img_after"]
      by (auto simp: neb2dimer_def split: sum.splits)
    with inb ina show ?thesis by blast
  qed
qed


lemma neb2dimer_wraps_before:
  assumes "- int (length images) \<le> int ts - b" "int ts - b < 0"
  shows "neb2dimer images ts b a =
          (case py_getitem images (int ts + a) of
             Inl e \<Rightarrow> Inl e
           | Inr img_after \<Rightarrow>
               (case np_sub (positions (images ! nat (int (length images) + (int ts - b))))
                            (positions img_after) of
                  Inl e \<Rightarrow> Inl e
                | Inr image_vector \<Rightarrow> Inr (image_vector, displacement_vector_of image_vector)))"
  using py_getitem_neg [OF assms] by (simp add: neb2dimer_def)

text \<open>
  C2, as amended. On a chain of \<open>n\<close> images the derivation fails with \<open>IndexError\<close> exactly
  when \<open>i - b\<close> or \<open>i + a\<close> lies outside \<open>-n, \<dots>, n - 1\<close>, the range of Python's list
  indexing: so it does whenever \<open>i + a \<ge> n\<close> and whenever \<open>i - b < -n\<close>. For
  \<open>-n \<le> i - b < 0\<close> the index \<open>i - b\<close> raises nothing: the image before the transition
  state is then image \<open>n + (i - b)\<close>, counted from the end of the chain.
\<close>

theorem neb2dimer_index_error:
  "(neb2dimer images ts b a = Inl IndexError \<longleftrightarrow>
      int ts - b < - int (length images) \<or> int (length images) \<le> int ts - b
      \<or> int ts + a < - int (length images) \<or> int (length images) \<le> int ts + a)
   \<and> (- int (length images) \<le> int ts - b \<and> int ts - b < 0 \<longrightarrow>
        neb2dimer images ts b a =
          (case py_getitem images (int ts + a) of
             Inl e \<Rightarrow> Inl e
           | Inr img_after \<Rightarrow>
               (case np_sub (positions (images ! nat (int (length images) + (int ts - b))))
                            (positions img_after) of
                  Inl e \<Rightarrow> Inl e
                | Inr image_vector \<Rightarrow> Inr (image_vector, displacement_vector_of image_vector))))"
  using neb2dimer_IndexError_iff [of images ts b a] neb2dimer_wraps_before [of images ts b a]
  by blast

theorem neb2dimer_index_error_witness:
  "neb2dimer
     [\<lparr>positions = [(0, 0, 0)], constraints = [], potential_energy = 0\<rparr>,
      \<lparr>positions = [(1, 0, 0)], constraints = [], potential_energy = 1\<rparr>,
      \<lparr>positions = [(2, 0, 0)], constraints = [], potential_energy = 2\<rparr>] 2 1 1
   = Inl IndexError
   \<and> - int (length [\<lparr>positions = [(0, 0, 0)], constraints = [], potential_energy = 2\<rparr>,
      \<lparr>positions = [(1, 0, 0)], constraints = [], potential_energy = 1\<rparr>,
      \<lparr>positions = [(2, 0, 0)], constraints = [], potential_energy = 0\<rparr>]) \<le> int 0 - 1
   \<and> int 0 - 1 < (0::int)
   \<and> neb2dimer
     [\<lparr>positions = [(0, 0, 0)], constraints = [], potential_energy = 2\<rparr>,
      \<lparr>positions = [(1, 0, 0)], constraints = [], potential_energy = 1\<rparr>,
      \<lparr>positions = [(2, 0, 0)], constraints = [], potential_energy = 0\<rparr>] 0 1 1
     = Inr ([(1, 0, 0)], displacement_vector_of [(1, 0, 0)])"
  using neb2dimer_index_error
     [of "[\<lparr>positions = [(0, 0, 0)], constraints = [], potential_energy = 0\<rparr>,
      \<lparr>positions = [(1, 0, 0)], constraints = [], potential_energy = 1\<rparr>,
      \<lparr>positions = [(2, 0, 0)], constraints = [], potential_energy = 2\<rparr>]" 2 1 1]
    neb2dimer_index_error
     [of "[\<lparr>positions = [(0, 0, 0)], constraints = [], potential_energy = 2\<rparr>,
      \<lparr>positions = [(1, 0, 0)], constraints = [], potential_energy = 1\<rparr>,
      \<lparr>positions = [(2, 0, 0)], constraints = [], potential_energy = 0\<rparr>]" 0 1 1]
  by (simp add: py_getitem_def py_index_def np_sub_def sub3_def)

text \<open>
  The claim as stated fails: with the transition state at index 0 of a chain of three
  one-atom images and both steps 1, \<open>i - b = -1\<close> is negative, and the derivation returns
  a vector, built from the last image and image 1.
\<close>

theorem neb2dimer_negative_index_counterexample:
  "int 0 - 1 < 0 \<and>
   neb2dimer
     [\<lparr>positions = [(0, 0, 0)], constraints = [], potential_energy = 2\<rparr>,
      \<lparr>positions = [(1, 0, 0)], constraints = [], potential_energy = 1\<rparr>,
      \<lparr>positions = [(2, 0, 0)], constraints = [], potential_energy = 0\<rparr>] 0 1 1
   = Inr ([(1, 0, 0)], Array [(1 / 100, 0, 0)])"
  by (simp add: neb2dimer_def py_getitem_def py_index_def np_sub_def sub3_def
      displacement_vector_of_def norm_fro_def norm_vector_param_def np_div_def)

subsection \<open>Reading part\<close>

text \<open>
  C3, as amended. With no argument the usage message is printed and the process exits
  with code 1; with the single argument \<open>-h\<close> or \<open>--help\<close> the message is printed and the
  process exits with code 0; these are the only exits of the reading part. Any other
  single argument is read as a trajectory. With two or more arguments nothing is printed
  and nothing exits: the first two are the structure files, the third is the format when
  there are exactly three, and with four or more the format is auto-detected and the
  arguments after the second are ignored.
\<close>

theorem reading_part_cases:
  "(length argv < 2 \<longrightarrow> reading_part argv = ([Print msg], Exit 1))
   \<and> (length argv = 2 \<and> (argv ! 1 = ''-h'' \<or> argv ! 1 = ''--help'') \<longrightarrow>
        reading_part argv = ([Print msg], Exit 0))
   \<and> (length argv = 2 \<and> argv ! 1 \<noteq> ''-h'' \<and> argv ! 1 \<noteq> ''--help'' \<longrightarrow>
        reading_part argv = ([], Read_trajectory (argv ! 1)))
   \<and> (2 < length argv \<longrightarrow>
        reading_part argv =
          ([], Read_structures (argv ! 1) (argv ! 2)
                 (if length argv = 4 then Some (argv ! 3) else None)))
   \<and> ((\<exists>code. snd (reading_part argv) = Exit code) \<longleftrightarrow>
        length argv < 2 \<or> length argv = 2 \<and> (argv ! 1 = ''-h'' \<or> argv ! 1 = ''--help''))"
  by (auto simp: reading_part_def)

theorem reading_part_cases_witness:
  "length [''neb2dimer_dpa2.py''] < 2
   \<and> reading_part [''neb2dimer_dpa2.py''] = ([Print msg], Exit 1)
   \<and> reading_part [''neb2dimer_dpa2.py'', ''--help''] = ([Print msg], Exit 0)
   \<and> reading_part [''neb2dimer_dpa2.py'', ''neb.traj''] = ([], Read_trajectory ''neb.traj'')
   \<and> reading_part [''neb2dimer_dpa2.py'', ''is.stru'', ''fs.stru'', ''abacus'']
       = ([], Read_structures ''is.stru'' ''fs.stru'' (Some ''abacus''))"
  using reading_part_cases [of "[''neb2dimer_dpa2.py'']"]
    reading_part_cases [of "[''neb2dimer_dpa2.py'', ''--help'']"]
    reading_part_cases [of "[''neb2dimer_dpa2.py'', ''neb.traj'']"]
    reading_part_cases [of "[''neb2dimer_dpa2.py'', ''is.stru'', ''fs.stru'', ''abacus'']"]
  by simp

text \<open>
  The claim as stated fails: four file arguments give no usage error and no exit.
\<close>

theorem reading_part_extra_arguments_counterexample:
  "reading_part [''neb2dimer_dpa2.py'', ''a.traj'', ''b.traj'', ''c.traj'', ''d.traj'']
   = ([], Read_structures ''a.traj'' ''b.traj'' None)"
  by (simp add: reading_part_def)

subsection \<open>Norms and the rescaled displacement vector\<close>
















subsection \<open>The main-mode selector\<close>












subsection \<open>The dimer runner\<close>

lemma dimer_masks_append: "dimer_masks (evs @ evs') = dimer_masks evs @ dimer_masks evs'"
  by (induction evs rule: dimer_masks.induct) simp_all

lemma seed_vectors_append: "seed_vectors (evs @ evs') = seed_vectors evs @ seed_vectors evs'"
  by (induction evs rule: seed_vectors.induct) simp_all

lemma dimer_iterations_append:
  "dimer_iterations (evs @ evs') = dimer_iterations evs @ dimer_iterations evs'"
  by (induction evs rule: dimer_iterations.induct) simp_all

lemma set_calculator_observed:
  "dimer_masks (set_calculator self) = []" "seed_vectors (set_calculator self) = []"
  "dimer_iterations (set_calculator self) = []"
  by (simp_all add: set_calculator_def)

lemma set_d_mask_by_constraint_observed:
  "dimer_masks (fst (set_d_mask_by_constraint self)) = []"
  "seed_vectors (fst (set_d_mask_by_constraint self)) = []"
  by (simp_all add: set_d_mask_by_constraint_def Let_def split: list.splits)



lemma set_d_mask_by_constraint_seed:
  "set_d_mask_by_constraint (self\<lparr>displacement_vector := dv\<rparr>) = set_d_mask_by_constraint self"
  by (simp add: set_d_mask_by_constraint_def)

lemma run_unknown_method:
  assumes "init_eigenmode_method self \<noteq> ''displacement''" "init_eigenmode_method self \<noteq> ''gauss''"
  shows "run self fmax properties moving_atoms_ind =
           (set_calculator self @ [Open_trajectory (traj_file self) properties],
            Inl (ValueError ''init_eigenmode_method must be displacement or gauss''))"
  using assms by (simp add: run_def)

lemma run_gauss:
  assumes "init_eigenmode_method self = ''gauss''"
  shows "run self fmax properties moving_atoms_ind =
           (case set_d_mask_by_constraint self of
              (evs', Inl e) \<Rightarrow>
                (set_calculator self @ [Open_trajectory (traj_file self) properties] @ evs', Inl e)
            | (evs', Inr d_mask) \<Rightarrow>
                (set_calculator self @ [Open_trajectory (traj_file self) properties] @ evs' @
                 [Dimer_control ''gauss'' None d_mask, Min_mode_translate fmax], Inr ()))"
  using assms by (simp add: run_def split: prod.splits sum.splits)

lemma run_gauss_independent:
  assumes "init_eigenmode_method self = ''gauss''"
  shows "run (self\<lparr>displacement_vector := dv\<rparr>) fmax properties inds
         = run self fmax properties moving_atoms_ind"
proof -
  have "init_eigenmode_method (self\<lparr>displacement_vector := dv\<rparr>) = ''gauss''"
    using assms by simp
  moreover have "set_calculator (self\<lparr>displacement_vector := dv\<rparr>) = set_calculator self"
    by (simp add: set_calculator_def)
  ultimately show ?thesis
    by (simp add: run_gauss assms set_d_mask_by_constraint_seed)
qed

lemma run_gauss_observed:
  assumes "init_eigenmode_method self = ''gauss''"
  shows "seed_vectors (fst (run self fmax properties moving_atoms_ind)) = []"
    and "dimer_masks (fst (run self fmax properties moving_atoms_ind))
         = (case snd (set_d_mask_by_constraint self) of Inl e \<Rightarrow> [] | Inr d_mask \<Rightarrow> [d_mask])"
  using set_d_mask_by_constraint_observed [of self]
  by (auto simp: run_gauss [OF assms] dimer_masks_append seed_vectors_append
      set_calculator_observed split: prod.splits sum.splits)

text \<open>
  C8. For every eigenmode-method string other than \<open>displacement\<close> and \<open>gauss\<close> the runner
  raises the \<open>ValueError\<close> \<open>init_eigenmode_method must be displacement or gauss\<close>; by then
  it has set the calculator and opened the trajectory and nothing else, so that no dimer
  translation has been started. With the method \<open>gauss\<close> the run is the same whatever
  the displacement vector and the list of moving atoms are, no seed vector is handed to
  \<open>displace\<close>, and the mask handed to \<open>DimerControl\<close> is the one the by-constraint policy
  builds from the constraints of the structure.
\<close>

theorem run_eigenmode_method:
  "(init_eigenmode_method self \<noteq> ''displacement'' \<and> init_eigenmode_method self \<noteq> ''gauss'' \<longrightarrow>
      run self fmax properties moving_atoms_ind =
        (set_calculator self @ [Open_trajectory (traj_file self) properties],
         Inl (ValueError ''init_eigenmode_method must be displacement or gauss''))
      \<and> dimer_iterations (fst (run self fmax properties moving_atoms_ind)) = [])
   \<and> (init_eigenmode_method self = ''gauss'' \<longrightarrow>
      run (self\<lparr>displacement_vector := dv\<rparr>) fmax properties inds
        = run self fmax properties moving_atoms_ind
      \<and> seed_vectors (fst (run self fmax properties moving_atoms_ind)) = []
      \<and> dimer_masks (fst (run self fmax properties moving_atoms_ind))
          = (case snd (set_d_mask_by_constraint self) of Inl e \<Rightarrow> [] | Inr d_mask \<Rightarrow> [d_mask]))"
proof (intro conjI impI)
  assume a: "init_eigenmode_method self \<noteq> ''displacement'' \<and> init_eigenmode_method self \<noteq> ''gauss''"
  then show r: "run self fmax properties moving_atoms_ind =
        (set_calculator self @ [Open_trajectory (traj_file self) properties],
         Inl (ValueError ''init_eigenmode_method must be displacement or gauss''))"
    by (simp add: run_unknown_method)
  show "dimer_iterations (fst (run self fmax properties moving_atoms_ind)) = []"
    by (simp add: r dimer_iterations_append set_calculator_observed)
next
  assume g: "init_eigenmode_method self = ''gauss''"
  show "run (self\<lparr>displacement_vector := dv\<rparr>) fmax properties inds
        = run self fmax properties moving_atoms_ind"
    by (rule run_gauss_independent [OF g])
  show "seed_vectors (fst (run self fmax properties moving_atoms_ind)) = []"
    by (rule run_gauss_observed(1) [OF g])
  show "dimer_masks (fst (run self fmax properties moving_atoms_ind))
          = (case snd (set_d_mask_by_constraint self) of Inl e \<Rightarrow> [] | Inr d_mask \<Rightarrow> [d_mask])"
    by (rule run_gauss_observed(2) [OF g])
qed


theorem run_eigenmode_method_witness:
  "snd (run \<lparr>init_Atoms = \<lparr>positions = [(0, 0, 0), (1, 0, 0)], constraints = [[1]],
                              potential_energy = 0\<rparr>,
             model = ''m.pt'', omp = 1, directory = ''DIMER'', traj_file = ''dimer.traj'',
             init_eigenmode_method = ''random'', displacement_vector = None\<rparr>
          (5 / 100) [''energy''] None)
     = Inl (ValueError ''init_eigenmode_method must be displacement or gauss'')
   \<and> dimer_masks (fst (run \<lparr>init_Atoms = \<lparr>positions = [(0, 0, 0), (1, 0, 0)],
                                           constraints = [[1]], potential_energy = 0\<rparr>,
             model = ''m.pt'', omp = 1, directory = ''DIMER'', traj_file = ''dimer.traj'',
             init_eigenmode_method = ''gauss'', displacement_vector = None\<rparr>
          (5 / 100) [''energy''] (Some [0])))
     = [[True, False]]"
  using run_eigenmode_method
    [of "\<lparr>init_Atoms = \<lparr>positions = [(0, 0, 0), (1, 0, 0)], constraints = [[1]],
                              potential_energy = 0\<rparr>,
             model = ''m.pt'', omp = 1, directory = ''DIMER'', traj_file = ''dimer.traj'',
             init_eigenmode_method = ''random'', displacement_vector = None\<rparr>"
        "5 / 100" "[''energy'']" None]
    run_eigenmode_method
    [of "\<lparr>init_Atoms = \<lparr>positions = [(0, 0, 0), (1, 0, 0)], constraints = [[1]],
                              potential_energy = 0\<rparr>,
             model = ''m.pt'', omp = 1, directory = ''DIMER'', traj_file = ''dimer.traj'',
             init_eigenmode_method = ''gauss'', displacement_vector = None\<rparr>"
        "5 / 100" "[''energy'']" "Some [0]"]
  by (simp add: set_d_mask_by_constraint_def py_setitem_def py_index_def)

subsection \<open>The empty index list\<close>

lemma run_displacement:
  assumes "init_eigenmode_method self = ''displacement''"
  shows "run self fmax properties moving_atoms_ind =
           (case (case moving_atoms_ind of
                    None \<Rightarrow> set_d_mask_by_displacement self
                  | Some [] \<Rightarrow> set_d_mask_by_displacement self
                  | Some (ind # inds) \<Rightarrow> set_d_mask_by_specified self (ind # inds)) of
              (evs', Inl e) \<Rightarrow>
                (set_calculator self @ [Open_trajectory (traj_file self) properties] @ evs', Inl e)
            | (evs', Inr d_mask) \<Rightarrow>
                (set_calculator self @ [Open_trajectory (traj_file self) properties] @ evs' @
                 [Dimer_control ''displacement'' (Some ''vector'') d_mask,
                  Displace (displacement_vector self),
                  Min_mode_translate fmax], Inr ()))"
  using assms by (simp add: run_def split: prod.splits sum.splits)





subsection \<open>The thread-count hint\<close>

lemma py_str_int_omp_param: "py_str_int omp_param = ''16''"
  by (simp add: py_str_int_def omp_param_def py_str_nat.simps [of 16] py_str_nat.simps [of "Suc 0"])

lemma environ_after_append:
  "environ_after (evs @ evs') env = environ_after evs' (environ_after evs env)"
  by (simp add: environ_after_def)

lemma environ_after_Cons:
  "environ_after (ev # evs) env = environ_after evs (apply_event ev env)"
  by (simp add: environ_after_def)

lemma environ_after_Nil: "environ_after [] env = env"
  by (simp add: environ_after_def)

lemma environ_after_set_calculator:
  "environ_after (set_calculator self) env = env(''OMP_NUM_THREADS'' \<mapsto> py_str_int (omp self))"
  by (simp add: environ_after_def set_calculator_def)

lemma environ_after_masks:
  "environ_after (fst (set_d_mask_by_displacement self)) env = env"
  "environ_after (fst (set_d_mask_by_constraint self)) env = env"
  "environ_after (fst (set_d_mask_by_specified self inds)) env = env"
  by (simp_all add: environ_after_def set_d_mask_by_displacement_def
      set_d_mask_by_constraint_def set_d_mask_by_specified_def Let_def split: list.splits)

lemma environ_after_run_displacement:
  assumes "init_eigenmode_method self = ''displacement''"
  shows "environ_after (fst (run self fmax properties None)) env
         = env(''OMP_NUM_THREADS'' \<mapsto> py_str_int (omp self))"
proof (cases "set_d_mask_by_displacement self")
  case (Pair evs' r)
  then have e: "environ_after evs' env' = env'" for env'
    using environ_after_masks(1) [of self env'] by simp
  show ?thesis
    by (cases r)
       (simp_all add: run_displacement [OF assms] Pair environ_after_append
          environ_after_Cons environ_after_Nil environ_after_set_calculator e)
qed

lemma stage_environ_Dimer_part:
  "stage_environ dimer_init dv Dimer_part env = env(''OMP_NUM_THREADS'' \<mapsto> ''16'')"
proof -
  have "init_eigenmode_method (script_dimer dimer_init dv) = ''displacement''"
    "omp (script_dimer dimer_init dv) = omp_param"
    by (simp_all add: script_dimer_def)
  with environ_after_run_displacement [of "script_dimer dimer_init dv"]
  show ?thesis by (simp add: py_str_int_omp_param)
qed

text \<open>
  C9, as amended. The parameter setting assigns to \<open>OMP_NUM_THREADS\<close> the literal string
  \<open>omp\<close>, of three characters, not the decimal form \<open>16\<close> of the configured thread count.
  The variable keeps that value through the reading part, the relaxation of the end
  points, the NEB run and the derivation of the displacement vector; only the dimer
  part, whose runner calls \<open>set_calculator\<close>, sets it to \<open>16\<close>, and the parts after it
  find that value.
\<close>

theorem omp_num_threads_script:
  "omp_num_threads dimer_init dv script env =
     [(Parameter_setting, Some ''omp''), (Reading_part, Some ''omp''),
      (Endpoint_relaxation, Some ''omp''), (Run_neb, Some ''omp''),
      (Neb_to_dimer, Some ''omp''), (Dimer_part, Some ''16''),
      (Structure_export, Some ''16''), (Vibration_analysis, Some ''16'')]
   \<and> map_option length (stage_environ dimer_init dv Parameter_setting env ''OMP_NUM_THREADS'')
       = Some 3
   \<and> py_str_int omp_param = ''16''
   \<and> set_calculator (script_dimer dimer_init dv)
       = [Setenv ''OMP_NUM_THREADS'' ''16'', New_calculator model_param]"
proof (intro conjI)
  show "omp_num_threads dimer_init dv script env =
     [(Parameter_setting, Some ''omp''), (Reading_part, Some ''omp''),
      (Endpoint_relaxation, Some ''omp''), (Run_neb, Some ''omp''),
      (Neb_to_dimer, Some ''omp''), (Dimer_part, Some ''16''),
      (Structure_export, Some ''16''), (Vibration_analysis, Some ''16'')]"
    by (simp add: script_def stage_environ_Dimer_part del: stage_environ.simps(2))
  show "map_option length (stage_environ dimer_init dv Parameter_setting env ''OMP_NUM_THREADS'')
       = Some 3"
    by simp
  show "py_str_int omp_param = ''16''"
    by (rule py_str_int_omp_param)
  show "set_calculator (script_dimer dimer_init dv)
       = [Setenv ''OMP_NUM_THREADS'' ''16'', New_calculator model_param]"
    by (simp add: set_calculator_def script_dimer_def py_str_int_omp_param)
qed

theorem omp_num_threads_script_witness:
  "map snd (omp_num_threads \<lparr>positions = [(0, 0, 0)], constraints = [], potential_energy = 0\<rparr>
      (Array [(1 / 100, 0, 0)]) script Map.empty)
   = [Some ''omp'', Some ''omp'', Some ''omp'', Some ''omp'', Some ''omp'',
      Some ''16'', Some ''16'', Some ''16'']"
  using omp_num_threads_script
    [of "\<lparr>positions = [(0, 0, 0)], constraints = [], potential_energy = 0\<rparr>"
        "Array [(1 / 100, 0, 0)]" Map.empty]
  by simp

text \<open>
  The claim as stated fails in one detail: the string assigned at line 33 does not have
  four characters.
\<close>

theorem omp_num_threads_four_characters_counterexample:
  "\<not> (\<exists>s. stage_environ \<lparr>positions = [(0, 0, 0)], constraints = [], potential_energy = 0\<rparr>
             (Array [(1 / 100, 0, 0)]) Parameter_setting Map.empty ''OMP_NUM_THREADS'' = Some s
           \<and> length s = 4)"
  by simp

end
